theory Spec2Isabelle
  imports Complex_Main "HOL-Library.AList"
begin

section \<open>The hiMCM sustainability scoring pipeline (himcm/core.py)\<close>

text \<open>
  The embedding follows \<^verbatim>\<open>src/himcm/core.py\<close>. Python floats are idealised as real
  numbers; a NaN (and Python's \<^verbatim>\<open>None\<close> in a column) is the value \<open>None\<close> of
  \<open>real option\<close>, and it propagates through arithmetic as NaN does. Rounding error of
  IEEE arithmetic is outside the model. A pandas Series over the frame's index is the
  list of its cells in index order, the index being the positions \<open>0..<nrows\<close>.
  An exception is a value \<open>Inl e\<close> of the result.
\<close>

subsection \<open>Values, errors and Python builtins\<close>

datatype py_error = ZeroDivisionError | ValueError | KeyError | TypeError

datatype cell = Num real | Str string | Null

text \<open>
  \<^verbatim>\<open>str(x)\<close> of a number and \<^verbatim>\<open>float(s)\<close> of a string are Python builtins whose
  result depends on the float format; they are parameters of the model.
\<close>

record pybuiltins =
  str_float :: "real \<Rightarrow> string"
  float_str :: "string \<Rightarrow> py_error + real option"

definition bindE :: "'e + 'a \<Rightarrow> ('a \<Rightarrow> 'e + 'b) \<Rightarrow> 'e + 'b" where
  "bindE m f = (case m of Inl e \<Rightarrow> Inl e | Inr x \<Rightarrow> f x)"

fun mapE :: "('a \<Rightarrow> 'e + 'b) \<Rightarrow> 'a list \<Rightarrow> 'e + 'b list" where
  "mapE f [] = Inr []"
| "mapE f (x # xs) = bindE (f x) (\<lambda>y. bindE (mapE f xs) (\<lambda>ys. Inr (y # ys)))"

text \<open>Float arithmetic with NaN propagation.\<close>

definition fadd :: "real option \<Rightarrow> real option \<Rightarrow> real option" where
  "fadd a b = (case a of None \<Rightarrow> None | Some x \<Rightarrow> (case b of None \<Rightarrow> None | Some y \<Rightarrow> Some (x + y)))"

definition fsub :: "real option \<Rightarrow> real option \<Rightarrow> real option" where
  "fsub a b = (case a of None \<Rightarrow> None | Some x \<Rightarrow> (case b of None \<Rightarrow> None | Some y \<Rightarrow> Some (x - y)))"

definition fmul :: "real option \<Rightarrow> real option \<Rightarrow> real option" where
  "fmul a b = (case a of None \<Rightarrow> None | Some x \<Rightarrow> (case b of None \<Rightarrow> None | Some y \<Rightarrow> Some (x * y)))"

text \<open>
  Division of numpy floats does not raise: a zero divisor gives an infinity or NaN,
  both of which are \<open>None\<close> here (not a finite number).
\<close>

definition fdiv :: "real option \<Rightarrow> real option \<Rightarrow> real option" where
  "fdiv a b = (case a of None \<Rightarrow> None | Some x \<Rightarrow>
     (case b of None \<Rightarrow> None | Some y \<Rightarrow> if y = 0 then None else Some (x / y)))"

text \<open>\<^verbatim>\<open>np.round(x, d)\<close>: scale, round half to even, scale back.\<close>

definition rint :: "real \<Rightarrow> int" where
  "rint x = (let f = \<lfloor>x\<rfloor>; d = x - of_int f in
     if d < 1 / 2 then f else if 1 / 2 < d then f + 1 else if even f then f else f + 1)"

definition np_round :: "nat \<Rightarrow> real option \<Rightarrow> real option" where
  "np_round d v = map_option (\<lambda>x. of_int (rint (x * 10 ^ d)) / 10 ^ d) v"

subsection \<open>Strings\<close>

text \<open>
  \<^verbatim>\<open>str.lower\<close> on ASCII letters; the bytes of a non-ASCII character are left as they
  are. \<open>startswith s p\<close> is \<^verbatim>\<open>s.startswith(p)\<close> and \<open>contains k s\<close> is \<^verbatim>\<open>k in s\<close>.
\<close>

definition lower_char :: "char \<Rightarrow> char" where
  "lower_char c =
     (case map_of (zip ''ABCDEFGHIJKLMNOPQRSTUVWXYZ'' ''abcdefghijklmnopqrstuvwxyz'') c of
        Some d \<Rightarrow> d
      | None \<Rightarrow> c)"

definition lower :: "string \<Rightarrow> string" where
  "lower s = map lower_char s"

fun startswith :: "string \<Rightarrow> string \<Rightarrow> bool" where
  "startswith s [] = True"
| "startswith [] (p # ps) = False"
| "startswith (c # s) (p # ps) = (c = p \<and> startswith s ps)"

fun contains :: "string \<Rightarrow> string \<Rightarrow> bool" where
  "contains k [] = (k = [])"
| "contains k (c # s) = (startswith (c # s) k \<or> contains k s)"

fun py_str :: "pybuiltins \<Rightarrow> cell \<Rightarrow> string" where
  "py_str py (Str s) = s"
| "py_str py (Num r) = str_float py r"
| "py_str py Null = ''nan''"

subsection \<open>Series\<close>

definition isnull :: "cell \<Rightarrow> bool" where
  "isnull c = (c = Null)"

fun float_cell :: "real option \<Rightarrow> cell" where
  "float_cell None = Null"
| "float_cell (Some r) = Num r"

text \<open>\<^verbatim>\<open>series.astype(float)\<close>: a string is parsed, and a string that is no number raises.\<close>

fun astype_float_cell :: "pybuiltins \<Rightarrow> cell \<Rightarrow> py_error + real option" where
  "astype_float_cell py (Num r) = Inr (Some r)"
| "astype_float_cell py Null = Inr None"
| "astype_float_cell py (Str s) = float_str py s"

definition astype_float :: "pybuiltins \<Rightarrow> cell list \<Rightarrow> py_error + real option list" where
  "astype_float py series = mapE (astype_float_cell py) series"

text \<open>The reductions of a float Series skip NaN; on no value at all they give NaN.\<close>

fun dropna :: "real option list \<Rightarrow> real list" where
  "dropna [] = []"
| "dropna (None # xs) = dropna xs"
| "dropna (Some x # xs) = x # dropna xs"

definition series_min :: "real option list \<Rightarrow> real option" where
  "series_min s = (case dropna s of [] \<Rightarrow> None | x # xs \<Rightarrow> Some (fold min xs x))"

definition series_max :: "real option list \<Rightarrow> real option" where
  "series_max s = (case dropna s of [] \<Rightarrow> None | x # xs \<Rightarrow> Some (fold max xs x))"

definition series_mean :: "real option list \<Rightarrow> real option" where
  "series_mean s = (case dropna s of [] \<Rightarrow> None
     | x # xs \<Rightarrow> Some (sum_list (x # xs) / real (length (x # xs))))"

text \<open>
  \<^verbatim>\<open>Series.std()\<close> is pandas' default: the sample standard deviation (\<^verbatim>\<open>ddof=1\<close>),
  NaN when fewer than two values are present.
\<close>

definition series_std :: "real option list \<Rightarrow> real option" where
  "series_std s = (let xs = dropna s; n = length xs in
     if n \<le> 1 then None
     else let m = sum_list xs / real n in
       Some (sqrt (sum_list (map (\<lambda>x. (x - m)\<^sup>2) xs) / real (n - 1))))"

text \<open>\<^verbatim>\<open>series.loc[i]\<close>: a label outside the index raises.\<close>

definition loc :: "'a list \<Rightarrow> nat \<Rightarrow> py_error + 'a" where
  "loc s i = (if i < length s then Inr (s ! i) else Inl KeyError)"

subsection \<open>\<^verbatim>\<open>_minmax_normalize\<close>\<close>

definition const_series :: "'a list \<Rightarrow> real option list" where
  "const_series index = map (\<lambda>_. Some 50) index"

definition minmax_normalize :: "pybuiltins \<Rightarrow> cell list \<Rightarrow> bool \<Rightarrow> py_error + real option list" where
  "minmax_normalize py series higher_is_better =
     (if list_all isnull series then Inr (const_series series)
      else bindE (astype_float py series) (\<lambda>s.
        let mn = series_min s; mx = series_max s in
        if mn = None \<or> mx = None \<or> mx = mn then Inr (const_series s)
        else
          let norm = map (\<lambda>v. fmul (fdiv (fsub v mn) (fsub mx mn)) (Some 100)) s in
          if \<not> higher_is_better then Inr (map (\<lambda>v. fsub (Some 100) v) norm)
          else Inr norm))"

subsection \<open>Dictionaries and data frames\<close>

text \<open>
  A Python dict is an association list in insertion order, its keys distinct;
  \<open>AList.update\<close> is the assignment \<^verbatim>\<open>d[k] = v\<close> (an existing key keeps its place, a new
  key goes to the end). A data frame is its number of rows and its columns in order.
\<close>

type_synonym weights = "(string \<times> real) list"

record dataframe =
  nrows :: nat
  columns :: "(string \<times> cell list) list"

definition df_columns :: "dataframe \<Rightarrow> string list" where
  "df_columns df = map fst (columns df)"

definition df_index :: "dataframe \<Rightarrow> nat list" where
  "df_index df = [0..<nrows df]"

definition df_getitem :: "dataframe \<Rightarrow> string \<Rightarrow> py_error + cell list" where
  "df_getitem df c = (case map_of (columns df) c of None \<Rightarrow> Inl KeyError | Some series \<Rightarrow> Inr series)"

text \<open>A cell used as a float operand: a string there raises.\<close>

fun cell_float :: "cell \<Rightarrow> py_error + real option" where
  "cell_float (Num r) = Inr (Some r)"
| "cell_float Null = Inr None"
| "cell_float (Str s) = Inl TypeError"

definition df_float_col :: "dataframe \<Rightarrow> string \<Rightarrow> py_error + real option list" where
  "df_float_col df c = bindE (df_getitem df c) (mapE cell_float)"

definition df_loc :: "dataframe \<Rightarrow> nat \<Rightarrow> string \<Rightarrow> py_error + real option" where
  "df_loc df idx c = bindE (df_getitem df c) (\<lambda>series. bindE (loc series idx) cell_float)"

subsection \<open>\<^verbatim>\<open>compute_env_condition_metric\<close>\<close>

definition default_env_weights :: weights where
  "default_env_weights = [(''energy'', 0.4), (''water'', 0.2), (''air'', 0.2), (''carbon'', 0.2)]"

text \<open>\<^verbatim>\<open>_minmax_normalize(df[c], higher_is_better=hib).loc[row.name]\<close>, the row being at \<open>i\<close>.\<close>

definition component :: "pybuiltins \<Rightarrow> dataframe \<Rightarrow> nat \<Rightarrow> string \<Rightarrow> bool \<Rightarrow> py_error + real option" where
  "component py df i c hib =
     bindE (df_getitem df c) (\<lambda>series. bindE (minmax_normalize py series hib) (\<lambda>norm. loc norm i))"

definition is_water_col :: "string \<Rightarrow> bool" where
  "is_water_col c = startswith (lower c) ''water''"

definition is_air_col :: "string \<Rightarrow> bool" where
  "is_air_col c = (contains ''air'' (lower c) \<or> contains ''pm2'' (lower c) \<or> contains ''pm10'' (lower c))"

definition is_carbon_col :: "string \<Rightarrow> bool" where
  "is_carbon_col c = (contains ''carbon'' (lower c) \<or> contains ''emissions'' (lower c))"

text \<open>Lines 46 to 69: the dict \<^verbatim>\<open>components\<close>.\<close>

definition env_components :: "pybuiltins \<Rightarrow> dataframe \<Rightarrow> nat \<Rightarrow> py_error + (string \<times> real option) list" where
  "env_components py df i =
     bindE (if ''Renewable_Energy_Pct'' \<in> set (df_columns df)
            then bindE (component py df i ''Renewable_Energy_Pct'' True)
                   (\<lambda>v. Inr (AList.update ''energy'' v []))
            else Inr []) (\<lambda>c1.
     bindE (case filter is_water_col (df_columns df) of
              [] \<Rightarrow> Inr c1
            | wc # _ \<Rightarrow> bindE (component py df i wc True) (\<lambda>v. Inr (AList.update ''water'' v c1))) (\<lambda>c2.
     bindE (case filter is_air_col (df_columns df) of
              [] \<Rightarrow> Inr c2
            | ac # _ \<Rightarrow> bindE (component py df i ac False) (\<lambda>v. Inr (AList.update ''air'' v c2))) (\<lambda>c3.
     (case filter is_carbon_col (df_columns df) of
        [] \<Rightarrow> Inr c3
      | cc # _ \<Rightarrow> bindE (component py df i cc False) (\<lambda>v. Inr (AList.update ''carbon'' v c3))))))"

text \<open>
  Lines 71 to 81. \<open>present\<close> holds, for every key of \<^verbatim>\<open>weights\<close> that is in
  \<^verbatim>\<open>components\<close>, the key with \<^verbatim>\<open>weights[k]\<close> and \<^verbatim>\<open>components[k]\<close>. The division of
  two Python floats raises on a zero divisor.
\<close>

definition present_components ::
  "weights \<Rightarrow> (string \<times> real option) list \<Rightarrow> (string \<times> real \<times> real option) list" where
  "present_components weights components =
     List.map_filter (\<lambda>(k, w). map_option (\<lambda>c. (k, w, c)) (map_of components k)) weights"

definition env_score :: "weights \<Rightarrow> (string \<times> real option) list \<Rightarrow> py_error + real option" where
  "env_score weights components =
     (let present = present_components weights components in
      if present = [] then Inr (Some 50)
      else
        let total_w = sum_list (map (\<lambda>(k, w, c). w) present) in
        if total_w = 0 then Inl ZeroDivisionError
        else Inr (np_round 2
               (foldl (\<lambda>score (k, w, c). fadd score (fmul c (Some (w / total_w)))) (Some 0) present)))"

definition compute_env_condition_metric ::
  "pybuiltins \<Rightarrow> dataframe \<Rightarrow> nat \<Rightarrow> weights option \<Rightarrow> py_error + real option" where
  "compute_env_condition_metric py df i env_component_weights =
     (let weights = (case env_component_weights of None \<Rightarrow> default_env_weights | Some w \<Rightarrow> w) in
      bindE (env_components py df i) (\<lambda>components. env_score weights components))"

subsection \<open>\<^verbatim>\<open>_map_with_rubric\<close>\<close>

type_synonym rubric_map = "(string \<times> real) list"

type_synonym rubric = "(string \<times> rubric_map) list"

fun exact_match :: "string \<Rightarrow> rubric_map \<Rightarrow> real option" where
  "exact_match s [] = None"
| "exact_match s ((k, v) # kvs) =
     (if k = ''default'' then exact_match s kvs
      else if k = s then Some v
      else exact_match s kvs)"

fun substring_match :: "string \<Rightarrow> rubric_map \<Rightarrow> real option" where
  "substring_match s [] = None"
| "substring_match s ((k, v) # kvs) =
     (if k = ''default'' then substring_match s kvs
      else if contains k s then Some v
      else substring_match s kvs)"

definition map_with_rubric :: "pybuiltins \<Rightarrow> cell \<Rightarrow> rubric_map \<Rightarrow> real option" where
  "map_with_rubric py v rubric_map =
     (if rubric_map = [] \<or> v = Null then None
      else
        let s = lower (py_str py v) in
        case exact_match s rubric_map of
          Some x \<Rightarrow> Some x
        | None \<Rightarrow>
           (case substring_match s rubric_map of
              Some x \<Rightarrow> Some x
            | None \<Rightarrow> map_of rubric_map ''default''))"

subsection \<open>\<^verbatim>\<open>calculate_sustainability_scores\<close>: the weights\<close>

definition default_weights :: weights where
  "default_weights =
     [(''Times_Hosted'', 0.05), (''Last_Hosted_Year'', 0.02), (''Stadium_Type'', 0.08),
      (''Stadium_leed_cert'', 0.05), (''Waste_Management'', 0.03), (''Future_Developments'', 0.03),
      (''Avg_Feb_Temp_F'', 0.05), (''Alltransit_Score'', 0.15), (''Renewable_Energy_Pct'', 0.10),
      (''Waste_Diversion_Pct'', 0.10), (''Green_Legacy_Projects'', 0.10),
      (''Carbon_Offset_Programs'', 0.05), (''Env_Conditions'', 0.25)]"

text \<open>Lines 168 to 174: the user's entries, then the forced \<^verbatim>\<open>Env_Conditions\<close> entry.\<close>

definition merged_weights :: "weights option \<Rightarrow> real \<Rightarrow> weights" where
  "merged_weights user_weights env_overall_weight =
     AList.update ''Env_Conditions'' env_overall_weight
       (case user_weights of
          None \<Rightarrow> default_weights
        | Some uw \<Rightarrow> fold (\<lambda>(k, v). AList.update k v) uw default_weights)"

text \<open>Lines 176 to 179: every entry divided by the total, a Python float division.\<close>

definition normalized_weights :: "weights option \<Rightarrow> real \<Rightarrow> py_error + weights" where
  "normalized_weights user_weights env_overall_weight =
     (let dw = merged_weights user_weights env_overall_weight;
          total = sum_list (map snd dw) in
      if total = 0 then Inl ZeroDivisionError
      else Inr (map (\<lambda>(k, v). (k, v / total)) dw))"

text \<open>\<^verbatim>\<open>default_weights.get(k, 0)\<close>\<close>

definition weight_get :: "weights \<Rightarrow> string \<Rightarrow> real" where
  "weight_get w k = (case map_of w k of None \<Rightarrow> 0 | Some x \<Rightarrow> x)"

subsection \<open>The component scores\<close>

definition col_map :: "(string \<times> bool) list" where
  "col_map =
     [(''Times_Hosted'', True), (''Last_Hosted_Year'', True), (''Avg_Feb_Temp_F'', False),
      (''Alltransit_Score'', True), (''Renewable_Energy_Pct'', True), (''Waste_Diversion_Pct'', True),
      (''Green_Legacy_Projects'', True), (''Carbon_Offset_Programs'', True)]"

definition norm_col :: "pybuiltins \<Rightarrow> dataframe \<Rightarrow> string \<Rightarrow> bool \<Rightarrow> py_error + real option list" where
  "norm_col py df col hi_better =
     (if col \<in> set (df_columns df)
      then bindE (df_getitem df col) (\<lambda>series. minmax_normalize py series hi_better)
      else Inr (const_series (df_index df)))"

definition norm_cols :: "pybuiltins \<Rightarrow> dataframe \<Rightarrow> py_error + (string \<times> real option list) list" where
  "norm_cols py df =
     mapE (\<lambda>(key, hi_better). bindE (norm_col py df key hi_better) (\<lambda>series. Inr (key, series))) col_map"

text \<open>
  The rubric is what \<^verbatim>\<open>_load_rubric\<close> read from the file (the empty dict when the file is
  missing or malformed); its scores are numbers. \<open>field_rubric\<close> is
  \<^verbatim>\<open>{k.lower(): v for k, v in rubric.get(field, {}).items()} if rubric else {}\<close>.
\<close>

definition field_rubric :: "rubric \<Rightarrow> string \<Rightarrow> rubric_map" where
  "field_rubric rubric field =
     (if rubric = [] then []
      else fold (\<lambda>(k, v). AList.update (lower k) v)
             (case map_of rubric field of None \<Rightarrow> [] | Some m \<Rightarrow> m) [])"

definition stad_map :: "pybuiltins \<Rightarrow> rubric_map \<Rightarrow> cell \<Rightarrow> real" where
  "stad_map py stadium_rub v =
     (case map_with_rubric py v stadium_rub of
        Some m \<Rightarrow> m
      | None \<Rightarrow>
          let s = lower (py_str py v) in
          if s \<in> set [''dome'', ''retractable roof'', ''retractable''] then 100 else 50)"

definition map_leed :: "pybuiltins \<Rightarrow> rubric_map \<Rightarrow> cell \<Rightarrow> real" where
  "map_leed py leed_rub x =
     (case map_with_rubric py x leed_rub of
        Some m \<Rightarrow> m
      | None \<Rightarrow>
          if isnull x then 0
          else
            let s = lower (py_str py x) in
            if contains ''platinum'' s then 100
            else if contains ''gold'' s then 80
            else if contains ''silver'' s then 60
            else if contains ''certified'' s then 50
            else 30)"

definition map_waste :: "pybuiltins \<Rightarrow> rubric_map \<Rightarrow> cell \<Rightarrow> real" where
  "map_waste py waste_rub x = (case map_with_rubric py x waste_rub of Some m \<Rightarrow> m | None \<Rightarrow> 50)"

definition map_future :: "pybuiltins \<Rightarrow> rubric_map \<Rightarrow> cell \<Rightarrow> real" where
  "map_future py future_rub x = (case map_with_rubric py x future_rub of Some m \<Rightarrow> m | None \<Rightarrow> 50)"

text \<open>\<^verbatim>\<open>df[field].apply(f)\<close> when the column is there, the neutral series otherwise.\<close>

definition categorical_scores :: "dataframe \<Rightarrow> string \<Rightarrow> (cell \<Rightarrow> real) \<Rightarrow> py_error + real option list" where
  "categorical_scores df field f =
     (if field \<in> set (df_columns df)
      then bindE (df_getitem df field) (\<lambda>series. Inr (map (\<lambda>v. Some (f v)) series))
      else Inr (const_series (df_index df)))"

subsection \<open>The raw score\<close>

definition numeric_keys :: "string list" where
  "numeric_keys =
     [''Times_Hosted'', ''Last_Hosted_Year'', ''Avg_Feb_Temp_F'', ''Alltransit_Score'',
      ''Renewable_Energy_Pct'', ''Waste_Diversion_Pct'', ''Green_Legacy_Projects'',
      ''Carbon_Offset_Programs'']"

definition dict_getitem :: "(string \<times> 'a) list \<Rightarrow> string \<Rightarrow> py_error + 'a" where
  "dict_getitem d k = (case map_of d k of None \<Rightarrow> Inl KeyError | Some v \<Rightarrow> Inr v)"

text \<open>\<^verbatim>\<open>s += default_weights.get(key, 0) * series.loc[idx]\<close>\<close>

definition add_term :: "weights \<Rightarrow> string \<Rightarrow> real option \<Rightarrow> real option \<Rightarrow> real option" where
  "add_term w key s v = fadd s (fmul (Some (weight_get w key)) v)"

text \<open>Lines 270 to 286: the body of the loop over \<^verbatim>\<open>df.index\<close>.\<close>

definition raw_score ::
  "weights \<Rightarrow> real option list \<Rightarrow> real option list \<Rightarrow> real option list \<Rightarrow> real option list \<Rightarrow>
   (string \<times> real option list) list \<Rightarrow> dataframe \<Rightarrow> nat \<Rightarrow> py_error + real option" where
  "raw_score w stadium_scores leed_scores waste_scores future_scores ncols df idx =
     bindE (loc stadium_scores idx) (\<lambda>st.
     bindE (loc leed_scores idx) (\<lambda>le.
     bindE (loc waste_scores idx) (\<lambda>wa.
     bindE (loc future_scores idx) (\<lambda>fu.
       let s = add_term w ''Stadium_Type'' (Some 0) st;
           s = add_term w ''Stadium_leed_cert'' s le;
           s = add_term w ''Waste_Management'' s wa;
           s = add_term w ''Future_Developments'' s fu
       in
       bindE (fold (\<lambda>key acc. bindE acc (\<lambda>s. bindE (dict_getitem ncols key) (\<lambda>series.
                     bindE (loc series idx) (\<lambda>v. Inr (add_term w key s v)))))
                numeric_keys (Inr s)) (\<lambda>s.
       bindE (df_loc df idx ''Env_Conditions'') (\<lambda>e.
         Inr (add_term w ''Env_Conditions'' s e)))))))"

text \<open>Lines 185 to 290: the list \<^verbatim>\<open>raw_scores\<close>, from the frame that holds \<^verbatim>\<open>Env_Conditions\<close>.\<close>

definition raw_scores :: "pybuiltins \<Rightarrow> rubric \<Rightarrow> weights \<Rightarrow> dataframe \<Rightarrow> py_error + real option list" where
  "raw_scores py rubric w df =
     bindE (norm_cols py df) (\<lambda>ncols.
     bindE (categorical_scores df ''Stadium_Type'' (stad_map py (field_rubric rubric ''Stadium_Type''))) (\<lambda>stadium_scores.
     bindE (categorical_scores df ''Stadium_leed_cert'' (map_leed py (field_rubric rubric ''Stadium_leed_cert''))) (\<lambda>leed_scores.
     bindE (categorical_scores df ''Waste_Management'' (map_waste py (field_rubric rubric ''Waste_Management''))) (\<lambda>waste_scores.
     bindE (categorical_scores df ''Future_Developments'' (map_future py (field_rubric rubric ''Future_Developments''))) (\<lambda>future_scores.
       mapE (raw_score w stadium_scores leed_scores waste_scores future_scores ncols df) (df_index df))))))"

subsection \<open>The standard scores\<close>

text \<open>
  Lines 293 to 298 on the float series \<^verbatim>\<open>df['Raw_Score']\<close>: the scalar 0.0 on every row
  of the index when the standard deviation is zero or NaN, the standard score otherwise.
\<close>

definition standardize :: "nat list \<Rightarrow> real option list \<Rightarrow> real option list" where
  "standardize index raw =
     (let mean = series_mean raw; std = series_std raw in
      if std = Some 0 \<or> std = None then map (\<lambda>_. Some 0) index
      else map (\<lambda>v. fdiv (fsub v mean) std) raw)"

definition z_scores :: "dataframe \<Rightarrow> py_error + real option list" where
  "z_scores df = bindE (df_float_col df ''Raw_Score'') (\<lambda>raw. Inr (standardize (df_index df) raw))"

text \<open>Line 301, reading the column \<^verbatim>\<open>Sustainability_Z\<close>.\<close>

definition rescale :: "real option \<Rightarrow> real option" where
  "rescale v = fadd (fmul v (Some 10)) (Some 50)"

definition z_scaled :: "dataframe \<Rightarrow> py_error + real option list" where
  "z_scaled df = bindE (df_float_col df ''Sustainability_Z'') (\<lambda>z. Inr (map rescale z))"

subsection \<open>The call, on a store of frames\<close>

text \<open>
  The frames live in a store and a reference is a position in it, so that the caller's
  frame and the copy the function works on are two objects. \<^verbatim>\<open>df.copy()\<close> allocates a
  new frame with the same content, and \<^verbatim>\<open>df[name] = values\<close> updates the frame a
  reference points to, in place. The function returns the reference of the frame it
  built or the exception, with the store it leaves behind. The row-wise \<^verbatim>\<open>df.apply\<close> is
  the list of the results on the rows of the index, in order.
\<close>

type_synonym store = "dataframe list"

definition df_copy :: "nat \<Rightarrow> store \<Rightarrow> nat \<times> store" where
  "df_copy r s = (length s, s @ [s ! r])"

definition with_column :: "dataframe \<Rightarrow> string \<Rightarrow> cell list \<Rightarrow> dataframe" where
  "with_column d name vals = d\<lparr>columns := AList.update name vals (columns d)\<rparr>"

definition df_setitem :: "nat \<Rightarrow> string \<Rightarrow> cell list \<Rightarrow> store \<Rightarrow> store" where
  "df_setitem r name vals s = s[r := with_column (s ! r) name vals]"

definition calculate_sustainability_scores ::
  "pybuiltins \<Rightarrow> rubric \<Rightarrow> nat \<Rightarrow> weights option \<Rightarrow> weights option \<Rightarrow> real \<Rightarrow> store \<Rightarrow>
   (py_error + nat) \<times> store" where
  "calculate_sustainability_scores py rubric caller_df user_weights env_component_weights
     env_overall_weight s0 =
     (let (df, s1) = df_copy caller_df s0 in
      case normalized_weights user_weights env_overall_weight of
        Inl e \<Rightarrow> (Inl e, s1)
      | Inr w \<Rightarrow>
      (case mapE (\<lambda>i. compute_env_condition_metric py (s1 ! df) i env_component_weights)
              (df_index (s1 ! df)) of
        Inl e \<Rightarrow> (Inl e, s1)
      | Inr env \<Rightarrow>
      let s2 = df_setitem df ''Env_Conditions'' (map float_cell env) s1 in
      (case raw_scores py rubric w (s2 ! df) of
        Inl e \<Rightarrow> (Inl e, s2)
      | Inr raw \<Rightarrow>
      let s3 = df_setitem df ''Raw_Score'' (map (\<lambda>x. float_cell (np_round 3 x)) raw) s2 in
      (case z_scores (s3 ! df) of
        Inl e \<Rightarrow> (Inl e, s3)
      | Inr z \<Rightarrow>
      let s4 = df_setitem df ''Sustainability_Z'' (map float_cell z) s3 in
      (case z_scaled (s4 ! df) of
        Inl e \<Rightarrow> (Inl e, s4)
      | Inr zs \<Rightarrow>
        (Inr df, df_setitem df ''Sustainability_Z_Scaled'' (map float_cell zs) s4))))))"

subsection \<open>Readings of the specification, and example inputs\<close>

text \<open>
  The resolution order of the rubric mapper as the specification words it: an exact
  match, ignoring case, against any key of the rubric; then the first key other than
  \<^verbatim>\<open>default\<close> that is a substring of the lowercased value; then the \<^verbatim>\<open>default\<close> entry.
\<close>

definition rubric_order_spec :: "pybuiltins \<Rightarrow> cell \<Rightarrow> rubric_map \<Rightarrow> real option" where
  "rubric_order_spec py v rubric_map =
     (if rubric_map = [] \<or> v = Null then None
      else
        case find (\<lambda>(k, x). lower k = lower (py_str py v)) rubric_map of
          Some (k, x) \<Rightarrow> Some x
        | None \<Rightarrow>
           (case find (\<lambda>(k, x). k \<noteq> ''default'' \<and> contains k (lower (py_str py v))) rubric_map of
              Some (k, x) \<Rightarrow> Some x
            | None \<Rightarrow> map_of rubric_map ''default''))"

text \<open>
  Detection of the energy column as the specification words it: some column name
  matches the renewable-energy-percentage name as a substring, ignoring case.
\<close>

definition energy_detected_spec :: "dataframe \<Rightarrow> bool" where
  "energy_detected_spec df =
     list_ex (\<lambda>c. contains (lower ''Renewable_Energy_Pct'') (lower c)) (df_columns df)"

text \<open>The population standard deviation (divisor \<open>n\<close>) of the values present.\<close>

definition population_std :: "real option list \<Rightarrow> real" where
  "population_std s = (let xs = dropna s; m = sum_list xs / real (length xs) in
     sqrt (sum_list (map (\<lambda>x. (x - m)\<^sup>2) xs) / real (length xs)))"

text \<open>
  The builtins used in the examples: no string parses as a number and every number
  prints as \<^verbatim>\<open>0.0\<close>. The examples hold strings in categorical columns only.
\<close>

definition py_example :: pybuiltins where
  "py_example = \<lparr>str_float = (\<lambda>_. ''0.0''), float_str = (\<lambda>_. Inl ValueError)\<rparr>"

text \<open>
  Example frames: the one-row frame of the repository's test
  \<^verbatim>\<open>test_missing_columns_behavior\<close>, one of two such rows, a frame of three rows with
  one numeric column, and one of that shape with the middle value missing.
\<close>

definition frame_one_row :: dataframe where
  "frame_one_row = \<lparr>nrows = 1, columns = [(''City'', [Str ''X''])]\<rparr>"


definition frame_three_rows :: dataframe where
  "frame_three_rows = \<lparr>nrows = 3, columns = [(''Times_Hosted'', [Num 0, Num 1, Num 2])]\<rparr>"

definition frame_missing_value :: dataframe where
  "frame_missing_value = \<lparr>nrows = 3, columns = [(''Times_Hosted'', [Num 1, Null, Num 3])]\<rparr>"

section \<open>Properties\<close>

subsection \<open>Basic facts\<close>

lemma bindE_Inr [simp]: "bindE (Inr x) f = f x"
  by (simp add: bindE_def)

lemma bindE_Inl [simp]: "bindE (Inl e) f = Inl e"
  by (simp add: bindE_def)

lemma mapE_Inr: "mapE (\<lambda>x. Inr (f x)) xs = Inr (map f xs)"
  by (induction xs) simp_all

lemma astype_float_float_cell: "astype_float py (map float_cell xs) = Inr xs"
proof -
  have "astype_float_cell py (float_cell x) = Inr x" for x by (cases x) simp_all
  then have "mapE (astype_float_cell py) (map float_cell xs) = Inr xs"
    by (induction xs) simp_all
  then show ?thesis by (simp add: astype_float_def)
qed

lemma all_null_float_cell: "list_all isnull (map float_cell xs) \<longleftrightarrow> dropna xs = []"
proof (induction xs)
  case Nil then show ?case by simp
next
  case (Cons x xs) then show ?case by (cases x) (simp_all add: isnull_def)
qed


lemma series_min_Min:
  assumes "dropna s \<noteq> []"
  shows "series_min s = Some (Min (set (dropna s)))"
proof -
  obtain y ys where "dropna s = y # ys" using assms by (cases "dropna s") auto
  then show ?thesis unfolding series_min_def by (simp only: list.case Min.set_eq_fold)
qed

lemma series_max_Max:
  assumes "dropna s \<noteq> []"
  shows "series_max s = Some (Max (set (dropna s)))"
proof -
  obtain y ys where "dropna s = y # ys" using assms by (cases "dropna s") auto
  then show ?thesis unfolding series_max_def by (simp only: list.case Max.set_eq_fold)
qed

subsection \<open>The normalizer on a numeric column\<close>

text \<open>
  On a column of numbers and missing values the normalizer never raises: it gives 50
  everywhere when at most one distinct value is present, and the min-max formula on
  every value present otherwise; a missing value stays missing there.
\<close>

lemma minmax_normalize_float:
  "minmax_normalize py (map float_cell xs) hib =
     (if dropna xs = [] \<or> Min (set (dropna xs)) = Max (set (dropna xs))
      then Inr (map (\<lambda>_. Some 50) xs)
      else Inr (map (map_option (\<lambda>x.
             if hib then (x - Min (set (dropna xs))) / (Max (set (dropna xs)) - Min (set (dropna xs))) * 100
             else 100 - (x - Min (set (dropna xs))) / (Max (set (dropna xs)) - Min (set (dropna xs))) * 100)) xs))"
proof (cases "dropna xs = []")
  case True
  then show ?thesis
    by (simp add: minmax_normalize_def all_null_float_cell const_series_def)
next
  case False
  show ?thesis
  proof (cases "Min (set (dropna xs)) = Max (set (dropna xs))")
    case True
    with False show ?thesis
      by (simp add: minmax_normalize_def all_null_float_cell astype_float_float_cell
          series_min_Min series_max_Max const_series_def)
  next
    case ne: False
    let ?lo = "Min (set (dropna xs))" and ?hi = "Max (set (dropna xs))"
    let ?f = "\<lambda>x. (x - ?lo) / (?hi - ?lo) * 100"
    have cellwise: "fmul (fdiv (fsub v (Some ?lo)) (fsub (Some ?hi) (Some ?lo))) (Some 100) =
        map_option ?f v" for v
      using ne by (cases v) (simp_all add: fmul_def fdiv_def fsub_def)
    have flip: "fsub (Some 100) (map_option ?f v) = map_option (\<lambda>x. 100 - ?f x) v" for v
      by (cases v) (simp_all add: fsub_def)
    have norm: "map (\<lambda>v. fmul (fdiv (fsub v (Some ?lo)) (fsub (Some ?hi) (Some ?lo))) (Some 100)) xs =
        map (map_option ?f) xs"
      by (simp only: cellwise)
    have flipped: "map (\<lambda>v. fsub (Some 100) v) (map (map_option ?f) xs) =
        map (map_option (\<lambda>x. 100 - ?f x)) xs"
      by (simp only: map_map comp_def flip)
    have mn: "series_min xs = Some ?lo" using False by (rule series_min_Min)
    have mx: "series_max xs = Some ?hi" using False by (rule series_max_Max)
    have "minmax_normalize py (map float_cell xs) hib =
        (if \<not> hib
         then Inr (map (\<lambda>v. fsub (Some 100) v)
                (map (\<lambda>v. fmul (fdiv (fsub v (Some ?lo)) (fsub (Some ?hi) (Some ?lo))) (Some 100)) xs))
         else Inr (map (\<lambda>v. fmul (fdiv (fsub v (Some ?lo)) (fsub (Some ?hi) (Some ?lo))) (Some 100)) xs))"
      using False ne
      by (simp add: minmax_normalize_def all_null_float_cell astype_float_float_cell mn mx Let_def
          eq_commute[of ?hi ?lo])
    also have "\<dots> = (if hib then Inr (map (map_option ?f) xs)
         else Inr (map (map_option (\<lambda>x. 100 - ?f x)) xs))"
      by (simp only: norm flipped) simp
    finally show ?thesis using False ne by (cases hib) simp_all
  qed
qed

text \<open>
  C7. On a column that is constant over the values present, or where every value is
  missing, \<^verbatim>\<open>_minmax_normalize\<close> returns 50 at every position and does not raise.
\<close>

theorem minmax_normalize_constant:
  assumes "\<forall>v \<in> set (dropna xs). v = c"
  shows "minmax_normalize py (map float_cell xs) hib = Inr (replicate (length xs) (Some 50))"
proof -
  have "Min (set (dropna xs)) = Max (set (dropna xs))" if "dropna xs \<noteq> []"
  proof -
    from that assms have "set (dropna xs) = {c}" by (cases "dropna xs") auto
    then show ?thesis by simp
  qed
  then show ?thesis
    by (auto simp: minmax_normalize_float map_replicate_const)
qed

theorem minmax_normalize_constant_witness:
  "set (dropna [Some 7, None, Some 7]) = {7} \<and> set (dropna [None, None]) = {} \<and>
   minmax_normalize py_example [Num 7, Null, Num 7] False = Inr [Some 50, Some 50, Some 50] \<and>
   minmax_normalize py_example [Null, Null] True = Inr [Some 50, Some 50]"
  using minmax_normalize_constant [of "[Some 7, None, Some 7]" 7 py_example False]
    minmax_normalize_constant [of "[None, None]" 0 py_example True]
  by (simp add: numeral_3_eq_3 numeral_2_eq_2)



subsection \<open>The weight vector\<close>

lemma sum_list_divide_const: "sum_list (map (\<lambda>v. v / c) xs) = sum_list xs / (c::real)"
  by (induction xs) (simp_all add: add_divide_distrib)

lemma map_of_merged_env: "map_of (merged_weights uw e) ''Env_Conditions'' = Some e"
  by (simp add: merged_weights_def update_conv')

text \<open>
  C1, as amended. For every user weight map and every \<^verbatim>\<open>env_overall_weight\<close>, the entry of
  \<^verbatim>\<open>Env_Conditions\<close> is set to \<^verbatim>\<open>env_overall_weight\<close> before the normalization, whatever
  the user map holds for that key. When the merged weights do not sum to zero, the
  normalized vector has the same keys, its \<^verbatim>\<open>Env_Conditions\<close> entry is
  \<^verbatim>\<open>env_overall_weight\<close> divided by the total, and its entries sum to 1. When they sum
  to zero the normalization raises \<^verbatim>\<open>ZeroDivisionError\<close>.
\<close>

theorem env_weight_forced:
  "map_of (merged_weights uw e) ''Env_Conditions'' = Some e \<and>
   (sum_list (map snd (merged_weights uw e)) \<noteq> 0 \<longrightarrow>
      (\<exists>w. normalized_weights uw e = Inr w \<and>
           map fst w = map fst (merged_weights uw e) \<and>
           map_of w ''Env_Conditions'' = Some (e / sum_list (map snd (merged_weights uw e))) \<and>
           sum_list (map snd w) = 1)) \<and>
   (sum_list (map snd (merged_weights uw e)) = 0 \<longrightarrow>
      normalized_weights uw e = Inl ZeroDivisionError)"
proof -
  let ?dw = "merged_weights uw e"
  let ?total = "sum_list (map snd ?dw)"
  let ?w = "map (\<lambda>(k, v). (k, v / ?total)) ?dw"
  have keys: "map fst ?w = map fst ?dw" by (simp add: case_prod_unfold comp_def)
  have vals: "map snd ?w = map (\<lambda>v. v / ?total) (map snd ?dw)"
    by (simp add: case_prod_unfold comp_def)
  have env: "map_of ?w ''Env_Conditions'' = Some (e / ?total)"
    by (simp add: map_of_map map_of_merged_env)
  have one: "sum_list (map snd ?w) = 1" if "?total \<noteq> 0"
    using that by (simp only: vals sum_list_divide_const) simp
  show ?thesis
    using keys env one by (simp add: normalized_weights_def Let_def map_of_merged_env)
qed

theorem env_weight_forced_witness:
  "sum_list (map snd (merged_weights (Some [(''Alltransit_Score'', 0.25), (''Env_Conditions'', 0.2)]) 0.25)) \<noteq> 0 \<and>
   (\<exists>w. normalized_weights (Some [(''Alltransit_Score'', 0.25), (''Env_Conditions'', 0.2)]) 0.25 = Inr w \<and>
        map_of w ''Env_Conditions'' = Some (0.25 / 1.16) \<and> sum_list (map snd w) = 1)"
proof -
  have total: "sum_list (map snd (merged_weights (Some [(''Alltransit_Score'', 0.25), (''Env_Conditions'', 0.2)]) 0.25)) = 1.16"
    by (simp add: merged_weights_def default_weights_def)
  show ?thesis
    using env_weight_forced [of "Some [(''Alltransit_Score'', 0.25), (''Env_Conditions'', 0.2)]" "0.25"]
    unfolding total by auto
qed

text \<open>
  The claim as stated fails where the merged weights sum to zero: with every weight of
  the user map zero and \<^verbatim>\<open>env_overall_weight\<close> zero there is no normalized vector.
\<close>

theorem zero_total_counterexample:
  "normalized_weights (Some [(''Times_Hosted'', 0), (''Last_Hosted_Year'', 0), (''Stadium_Type'', 0),
      (''Stadium_leed_cert'', 0), (''Waste_Management'', 0), (''Future_Developments'', 0),
      (''Avg_Feb_Temp_F'', 0), (''Alltransit_Score'', 0), (''Renewable_Energy_Pct'', 0),
      (''Waste_Diversion_Pct'', 0), (''Green_Legacy_Projects'', 0), (''Carbon_Offset_Programs'', 0)]) 0
   = Inl ZeroDivisionError"
  by (simp add: normalized_weights_def merged_weights_def default_weights_def)

subsection \<open>The rubric mapper\<close>

lemma exact_match_find:
  "exact_match s rm = map_option snd (find (\<lambda>(k, x). k \<noteq> ''default'' \<and> k = s) rm)"
  by (induction s rm rule: exact_match.induct) simp_all

lemma substring_match_find:
  "substring_match s rm = map_option snd (find (\<lambda>(k, x). k \<noteq> ''default'' \<and> contains k s) rm)"
  by (induction s rm rule: substring_match.induct) simp_all

lemma case_find_snd:
  "(case find P rm of Some (k, x) \<Rightarrow> Some x | None \<Rightarrow> d) =
   (case map_option snd (find P rm) of Some x \<Rightarrow> Some x | None \<Rightarrow> d)"
  by (cases "find P rm") auto

lemma gold_certified:
  "map_with_rubric py (Str ''Gold Certified'') [(''gold'', 80), (''default'', 10)] = Some 80"
  by (simp add: map_with_rubric_def lower_def lower_char_def)

lemma unknown_tier:
  "map_with_rubric py (Str ''Unknown Tier'') [(''gold'', 80), (''default'', 10)] = Some 10"
  by (simp add: map_with_rubric_def lower_def lower_char_def)

text \<open>
  C6, as amended. \<^verbatim>\<open>_map_with_rubric\<close> gives NO_MATCH when the rubric map is empty or the
  value is null; else the score of the first key other than \<^verbatim>\<open>default\<close> that equals the
  lowercased stringified value; else that of the first key other than \<^verbatim>\<open>default\<close> that is
  a substring of it; else the \<^verbatim>\<open>default\<close> entry if there is one; else NO_MATCH. The key
  \<^verbatim>\<open>default\<close> is never matched exactly, and the keys are compared as they are. So the
  order is the one the specification words whenever the keys are lowercase and the
  value does not lowercase to \<^verbatim>\<open>default\<close>. With the rubric \<^verbatim>\<open>{"gold": 80, "default": 10}\<close>,
  \<^verbatim>\<open>Gold Certified\<close> maps to 80 and \<^verbatim>\<open>Unknown Tier\<close> to 10.
\<close>

theorem map_with_rubric_order:
  "map_with_rubric py v rm =
     (if rm = [] \<or> v = Null then None
      else
        case find (\<lambda>(k, x). k \<noteq> ''default'' \<and> k = lower (py_str py v)) rm of
          Some (k, x) \<Rightarrow> Some x
        | None \<Rightarrow>
           (case find (\<lambda>(k, x). k \<noteq> ''default'' \<and> contains k (lower (py_str py v))) rm of
              Some (k, x) \<Rightarrow> Some x
            | None \<Rightarrow> map_of rm ''default'')) \<and>
   ((\<forall>k \<in> fst ` set rm. lower k = k) \<and> lower (py_str py v) \<noteq> ''default'' \<longrightarrow>
      map_with_rubric py v rm = rubric_order_spec py v rm) \<and>
   map_with_rubric py (Str ''Gold Certified'') [(''gold'', 80), (''default'', 10)] = Some 80 \<and>
   map_with_rubric py (Str ''Unknown Tier'') [(''gold'', 80), (''default'', 10)] = Some 10"
proof -
  let ?s = "lower (py_str py v)"
  have code: "map_with_rubric py v rm =
     (if rm = [] \<or> v = Null then None
      else
        case find (\<lambda>(k, x). k \<noteq> ''default'' \<and> k = ?s) rm of
          Some (k, x) \<Rightarrow> Some x
        | None \<Rightarrow>
           (case find (\<lambda>(k, x). k \<noteq> ''default'' \<and> contains k ?s) rm of
              Some (k, x) \<Rightarrow> Some x
            | None \<Rightarrow> map_of rm ''default''))"
    unfolding map_with_rubric_def Let_def case_find_snd exact_match_find substring_match_find ..
  have spec: "map_with_rubric py v rm = rubric_order_spec py v rm"
    if low: "\<forall>k \<in> fst ` set rm. lower k = k" and nd: "?s \<noteq> ''default''"
  proof -
    have "find (\<lambda>(k, x). lower k = ?s) rm = find (\<lambda>(k, x). k \<noteq> ''default'' \<and> k = ?s) rm"
      using low nd by (intro find_cong) (auto simp: rev_image_eqI)
    then show ?thesis unfolding code rubric_order_spec_def by simp
  qed
  show ?thesis using code spec gold_certified unknown_tier by blast
qed

theorem map_with_rubric_order_witness:
  "map lower (map fst [(''gold'', 80::real), (''default'', 10)]) = map fst [(''gold'', 80::real), (''default'', 10)] \<and>
   lower (py_str py_example (Str ''Gold Certified'')) \<noteq> ''default'' \<and>
   map_with_rubric py_example (Str ''Gold Certified'') [(''gold'', 80), (''default'', 10)] = Some 80 \<and>
   rubric_order_spec py_example (Str ''Gold Certified'') [(''gold'', 80), (''default'', 10)] = Some 80"
  using map_with_rubric_order [of py_example "Str ''Gold Certified''" "[(''gold'', 80), (''default'', 10)]"]
  by (auto simp add: lower_def lower_char_def)

text \<open>
  The claim as stated fails on the value \<^verbatim>\<open>Default\<close>: it matches the key \<^verbatim>\<open>default\<close>
  exactly when case is ignored, yet the code skips that key in the exact pass and
  returns the score of the substring \<^verbatim>\<open>fault\<close>.
\<close>

theorem default_key_counterexample:
  "map_with_rubric py_example (Str ''Default'') [(''fault'', 0), (''default'', 10)] = Some 0 \<and>
   rubric_order_spec py_example (Str ''Default'') [(''fault'', 0), (''default'', 10)] = Some 10"
  by (simp add: map_with_rubric_def rubric_order_spec_def lower_def lower_char_def)

subsection \<open>The environmental composite\<close>

lemma bindE_eq_Inr: "bindE m f = Inr y \<longleftrightarrow> (\<exists>x. m = Inr x \<and> f x = Inr y)"
  by (cases m) simp_all

lemma filter_case_Inr:
  "(case filter P cols of [] \<Rightarrow> Inr c | x # xs \<Rightarrow> bindE (g x) (\<lambda>v. Inr (AList.update key v c))) = Inr c'
   \<Longrightarrow> (\<forall>k. (map_of c' k \<noteq> None) = (k = key \<and> list_ex P cols \<or> map_of c k \<noteq> None))"
  by (cases "filter P cols")
     (auto simp: bindE_eq_Inr update_conv' list_ex_iff filter_empty_conv dest: filter_eq_ConsD)

text \<open>
  C5, as amended. In \<^verbatim>\<open>compute_env_condition_metric\<close> the energy component is detected
  exactly when the frame has a column named \<^verbatim>\<open>Renewable_Energy_Pct\<close>, an exact and
  case-sensitive test of the name. The water component is detected when some column
  name starts with \<^verbatim>\<open>water\<close> once lowercased, the air component when some lowercased name
  contains \<^verbatim>\<open>air\<close>, \<^verbatim>\<open>pm2\<close> or \<^verbatim>\<open>pm10\<close>, and the carbon component when some lowercased
  name contains \<^verbatim>\<open>carbon\<close> or \<^verbatim>\<open>emissions\<close>.
\<close>

theorem energy_detection_exact:
  assumes "env_components py df i = Inr components"
  shows "(map_of components ''energy'' \<noteq> None \<longleftrightarrow> ''Renewable_Energy_Pct'' \<in> set (df_columns df)) \<and>
         (map_of components ''water'' \<noteq> None \<longleftrightarrow> list_ex is_water_col (df_columns df)) \<and>
         (map_of components ''air'' \<noteq> None \<longleftrightarrow> list_ex is_air_col (df_columns df)) \<and>
         (map_of components ''carbon'' \<noteq> None \<longleftrightarrow> list_ex is_carbon_col (df_columns df))"
proof -
  from assms obtain c1 c2 c3 where
    s1: "(if ''Renewable_Energy_Pct'' \<in> set (df_columns df)
          then bindE (component py df i ''Renewable_Energy_Pct'' True) (\<lambda>v. Inr (AList.update ''energy'' v []))
          else Inr []) = Inr c1" and
    s2: "(case filter is_water_col (df_columns df) of [] \<Rightarrow> Inr c1
          | wc # _ \<Rightarrow> bindE (component py df i wc True) (\<lambda>v. Inr (AList.update ''water'' v c1))) = Inr c2" and
    s3: "(case filter is_air_col (df_columns df) of [] \<Rightarrow> Inr c2
          | ac # _ \<Rightarrow> bindE (component py df i ac False) (\<lambda>v. Inr (AList.update ''air'' v c2))) = Inr c3" and
    s4: "(case filter is_carbon_col (df_columns df) of [] \<Rightarrow> Inr c3
          | cc # _ \<Rightarrow> bindE (component py df i cc False) (\<lambda>v. Inr (AList.update ''carbon'' v c3))) = Inr components"
    unfolding env_components_def bindE_eq_Inr by blast
  have k1: "(map_of c1 k \<noteq> None) = (k = ''energy'' \<and> ''Renewable_Energy_Pct'' \<in> set (df_columns df))" for k
    using s1 by (auto simp: bindE_eq_Inr update_conv' split: if_splits)
  note k2 = filter_case_Inr[OF s2, rule_format]
  note k3 = filter_case_Inr[OF s3, rule_format]
  note k4 = filter_case_Inr[OF s4, rule_format]
  show ?thesis
    unfolding k4 k3 k2 k1 by simp
qed

theorem energy_detection_exact_witness:
  "env_components py_example \<lparr>nrows = 2, columns = [(''Renewable_Energy_Pct'', [Num 10, Num 30]), (''WATER_Score'', [Num 5, Num 1])]\<rparr> 0
     = Inr [(''energy'', Some 0), (''water'', Some 100)] \<and>
   ''Renewable_Energy_Pct'' \<in> set (df_columns \<lparr>nrows = 2, columns = [(''Renewable_Energy_Pct'', [Num 10, Num 30]), (''WATER_Score'', [Num 5, Num 1])]\<rparr>) \<and>
   map_of [(''energy'', Some (0::real)), (''water'', Some 100)] ''energy'' \<noteq> None"
proof -
  have ev: "env_components py_example \<lparr>nrows = 2, columns = [(''Renewable_Energy_Pct'', [Num 10, Num 30]), (''WATER_Score'', [Num 5, Num 1])]\<rparr> 0
     = Inr [(''energy'', Some 0), (''water'', Some 100)]"
    by code_simp
  show ?thesis
    using energy_detection_exact [OF ev] ev by simp
qed

text \<open>
  The claim as stated fails on a frame whose renewable-energy column is named
  \<^verbatim>\<open>renewable_energy_pct\<close>: the name matches when case is ignored, yet no energy
  component is detected and the composite is the neutral 50.
\<close>

theorem energy_lowercase_counterexample:
  "energy_detected_spec \<lparr>nrows = 2, columns = [(''renewable_energy_pct'', [Num 10, Num 30])]\<rparr> \<and>
   env_components py_example \<lparr>nrows = 2, columns = [(''renewable_energy_pct'', [Num 10, Num 30])]\<rparr> 0 = Inr [] \<and>
   compute_env_condition_metric py_example \<lparr>nrows = 2, columns = [(''renewable_energy_pct'', [Num 10, Num 30])]\<rparr> 0 None = Inr (Some 50)"
  by code_simp









subsection \<open>Frames, and the call step by step\<close>

lemma mapE_cell_float: "mapE cell_float (map float_cell xs) = Inr xs"
proof -
  have "cell_float (float_cell x) = Inr x" for x by (cases x) simp_all
  then show ?thesis by (induction xs) simp_all
qed

lemma length_mapE: "mapE f xs = Inr ys \<Longrightarrow> length ys = length xs"
proof (induction xs arbitrary: ys)
  case Nil then show ?case by simp
next
  case (Cons x xs)
  then show ?case by (auto simp: bindE_def split: sum.splits)
qed

lemma nrows_with_column [simp]: "nrows (with_column d name vals) = nrows d"
  by (simp add: with_column_def)

lemma df_index_with_column [simp]: "df_index (with_column d name vals) = df_index d"
  by (simp add: df_index_def)

lemma df_getitem_with_column:
  "df_getitem (with_column d name vals) c = (if c = name then Inr vals else df_getitem d c)"
  by (simp add: df_getitem_def with_column_def update_conv')

lemma df_float_col_with_column:
  "df_float_col (with_column d name vals) c =
     (if c = name then mapE cell_float vals else df_float_col d c)"
  by (simp add: df_float_col_def df_getitem_with_column)

lemma map_of_with_column:
  "map_of (columns (with_column d name vals)) c = (if c = name then Some vals else map_of (columns d) c)"
  by (simp add: with_column_def update_conv')

lemma df_columns_with_column:
  "set (df_columns (with_column d name vals)) = insert name (set (df_columns d))"
  by (simp add: df_columns_def with_column_def dom_update)

lemma df_copy_eq: "df_copy r s = (length s, s @ [s ! r])"
  by (simp add: df_copy_def)

lemma df_setitem_last: "df_setitem (length s) name vals (s @ [d]) = s @ [with_column d name vals]"
  by (simp add: df_setitem_def)

lemma z_scores_float:
  "z_scores (with_column d ''Raw_Score'' (map float_cell rr)) = Inr (standardize (df_index d) rr)"
  by (simp add: z_scores_def df_float_col_with_column mapE_cell_float)

lemma z_scaled_float:
  "z_scaled (with_column d ''Sustainability_Z'' (map float_cell z)) = Inr (map rescale z)"
  by (simp add: z_scaled_def df_float_col_with_column mapE_cell_float)

text \<open>The call, step by step: where it can raise, and the frame it builds.\<close>

lemma calc_unfold:
  "calculate_sustainability_scores py rubric r uw ecw e s0 =
    (case normalized_weights uw e of
       Inl er \<Rightarrow> (Inl er, s0 @ [s0 ! r])
     | Inr w \<Rightarrow>
      (case mapE (\<lambda>i. compute_env_condition_metric py (s0 ! r) i ecw) (df_index (s0 ! r)) of
         Inl er \<Rightarrow> (Inl er, s0 @ [s0 ! r])
       | Inr env \<Rightarrow>
        (case raw_scores py rubric w (with_column (s0 ! r) ''Env_Conditions'' (map float_cell env)) of
           Inl er \<Rightarrow> (Inl er, s0 @ [with_column (s0 ! r) ''Env_Conditions'' (map float_cell env)])
         | Inr raw \<Rightarrow>
             (Inr (length s0),
              s0 @ [with_column (with_column (with_column (with_column (s0 ! r)
                      ''Env_Conditions'' (map float_cell env))
                      ''Raw_Score'' (map float_cell (map (np_round 3) raw)))
                      ''Sustainability_Z''
                      (map float_cell (standardize (df_index (s0 ! r)) (map (np_round 3) raw))))
                      ''Sustainability_Z_Scaled''
                      (map float_cell (map rescale
                         (standardize (df_index (s0 ! r)) (map (np_round 3) raw))))]))))"
proof -
  have round: "map (\<lambda>x. float_cell (np_round 3 x)) raw = map float_cell (map (np_round 3) raw)" for raw
    by simp
  show ?thesis
    unfolding calculate_sustainability_scores_def df_copy_eq
    by (simp add: df_setitem_last z_scaled_float z_scores_float round Let_def
        del: map_map split: sum.splits)
qed

lemma length_raw_scores: "raw_scores py rubric w d = Inr raw \<Longrightarrow> length raw = nrows d"
  by (auto simp: raw_scores_def bindE_eq_Inr df_index_def dest!: length_mapE)

lemma calc_result:
  assumes "calculate_sustainability_scores py rubric r uw ecw e s0 = (Inr df, s')"
  shows "\<exists>env raw. length raw = nrows (s0 ! r) \<and> df = length s0 \<and>
     s' = s0 @ [with_column (with_column (with_column (with_column (s0 ! r)
                      ''Env_Conditions'' (map float_cell env))
                      ''Raw_Score'' (map float_cell (map (np_round 3) raw)))
                      ''Sustainability_Z''
                      (map float_cell (standardize (df_index (s0 ! r)) (map (np_round 3) raw))))
                      ''Sustainability_Z_Scaled''
                      (map float_cell (map rescale
                         (standardize (df_index (s0 ! r)) (map (np_round 3) raw))))]"
proof (cases "normalized_weights uw e")
  case Inl
  with assms show ?thesis unfolding calc_unfold by simp
next
  case w: (Inr w)
  show ?thesis
  proof (cases "mapE (\<lambda>i. compute_env_condition_metric py (s0 ! r) i ecw) (df_index (s0 ! r))")
    case Inl
    with w assms show ?thesis unfolding calc_unfold by simp
  next
    case env: (Inr env)
    show ?thesis
    proof (cases "raw_scores py rubric w (with_column (s0 ! r) ''Env_Conditions'' (map float_cell env))")
      case Inl
      with w env assms show ?thesis unfolding calc_unfold by simp
    next
      case raw: (Inr raw)
      from length_raw_scores[OF raw] have len: "length raw = nrows (s0 ! r)" by simp
      from assms have
        "(Inr (length s0),
              s0 @ [with_column (with_column (with_column (with_column (s0 ! r)
                      ''Env_Conditions'' (map float_cell env))
                      ''Raw_Score'' (map float_cell (map (np_round 3) raw)))
                      ''Sustainability_Z''
                      (map float_cell (standardize (df_index (s0 ! r)) (map (np_round 3) raw))))
                      ''Sustainability_Z_Scaled''
                      (map float_cell (map rescale
                         (standardize (df_index (s0 ! r)) (map (np_round 3) raw))))]) = (Inr df, s')"
        unfolding calc_unfold by (simp add: w env raw del: map_map)
      then have "length s0 = df \<and>
         s0 @ [with_column (with_column (with_column (with_column (s0 ! r)
                      ''Env_Conditions'' (map float_cell env))
                      ''Raw_Score'' (map float_cell (map (np_round 3) raw)))
                      ''Sustainability_Z''
                      (map float_cell (standardize (df_index (s0 ! r)) (map (np_round 3) raw))))
                      ''Sustainability_Z_Scaled''
                      (map float_cell (map rescale
                         (standardize (df_index (s0 ! r)) (map (np_round 3) raw))))] = s'"
        by simp
      with len show ?thesis by blast
    qed
  qed
qed

lemma calc_store:
  assumes "calculate_sustainability_scores py rubric r uw ecw e s0 = (res, s')"
  shows "\<exists>d. s' = s0 @ [d]"
  using assms unfolding calc_unfold by (auto split: sum.splits)

lemma calc_eval:
  assumes "normalized_weights uw e = Inr w"
    and "mapE (\<lambda>i. compute_env_condition_metric py (s0 ! r) i ecw) (df_index (s0 ! r)) = Inr env"
    and "raw_scores py rubric w (with_column (s0 ! r) ''Env_Conditions'' (map float_cell env)) = Inr raw"
    and "map (np_round 3) raw = rr"
  shows "calculate_sustainability_scores py rubric r uw ecw e s0 =
     (Inr (length s0),
      s0 @ [with_column (with_column (with_column (with_column (s0 ! r)
              ''Env_Conditions'' (map float_cell env))
              ''Raw_Score'' (map float_cell rr))
              ''Sustainability_Z'' (map float_cell (standardize (df_index (s0 ! r)) rr)))
              ''Sustainability_Z_Scaled''
              (map float_cell (map rescale (standardize (df_index (s0 ! r)) rr)))])"
  unfolding calc_unfold using assms by (simp del: map_map)

lemma result_columns:
  "df_getitem (with_column (with_column (with_column (with_column d
              ''Env_Conditions'' a) ''Raw_Score'' b) ''Sustainability_Z'' c)
              ''Sustainability_Z_Scaled'' z) ''Raw_Score'' = Inr b"
  "df_getitem (with_column (with_column (with_column (with_column d
              ''Env_Conditions'' a) ''Raw_Score'' b) ''Sustainability_Z'' c)
              ''Sustainability_Z_Scaled'' z) ''Sustainability_Z'' = Inr c"
  "df_getitem (with_column (with_column (with_column (with_column d
              ''Env_Conditions'' a) ''Raw_Score'' b) ''Sustainability_Z'' c)
              ''Sustainability_Z_Scaled'' z) ''Sustainability_Z_Scaled'' = Inr z"
  by (simp_all add: df_getitem_with_column)

subsection \<open>The default weight vector\<close>

lemma nw_default:
  "normalized_weights None (2 / 5) =
     Inr [(''Times_Hosted'', 5 / 121), (''Last_Hosted_Year'', 2 / 121), (''Stadium_Type'', 8 / 121),
      (''Stadium_leed_cert'', 5 / 121), (''Waste_Management'', 3 / 121), (''Future_Developments'', 3 / 121),
      (''Avg_Feb_Temp_F'', 5 / 121), (''Alltransit_Score'', 15 / 121), (''Renewable_Energy_Pct'', 10 / 121),
      (''Waste_Diversion_Pct'', 10 / 121), (''Green_Legacy_Projects'', 10 / 121),
      (''Carbon_Offset_Programs'', 5 / 121), (''Env_Conditions'', 40 / 121)]"
  by code_simp

subsection \<open>A numeric column with a missing value\<close>

lemma env_missing:
  "mapE (\<lambda>i. compute_env_condition_metric py_example frame_missing_value i None)
     (df_index frame_missing_value) = Inr [Some 50, Some 50, Some 50]"
  by code_simp

lemma raw_missing:
  "raw_scores py_example []
     [(''Times_Hosted'', 5 / 121), (''Last_Hosted_Year'', 2 / 121), (''Stadium_Type'', 8 / 121),
      (''Stadium_leed_cert'', 5 / 121), (''Waste_Management'', 3 / 121), (''Future_Developments'', 3 / 121),
      (''Avg_Feb_Temp_F'', 5 / 121), (''Alltransit_Score'', 15 / 121), (''Renewable_Energy_Pct'', 10 / 121),
      (''Waste_Diversion_Pct'', 10 / 121), (''Green_Legacy_Projects'', 10 / 121),
      (''Carbon_Offset_Programs'', 5 / 121), (''Env_Conditions'', 40 / 121)]
     (with_column frame_missing_value ''Env_Conditions'' (map float_cell [Some 50, Some 50, Some 50]))
   = Inr [Some (5800 / 121), None, Some (6300 / 121)]"
  by code_simp

lemma round_missing:
  "map (np_round 3) [Some (5800 / 121), None, Some (6300 / 121)]
     = [Some (23967 / 500), None, Some (26033 / 500)]"
  by code_simp

lemma std_missing:
  "series_std [Some (23967 / 500), None, Some (26033 / 500)] = Some (sqrt (1067089 / 125000))"
  by (simp add: series_std_def power2_eq_square)

lemma mean_missing:
  "series_mean [Some (23967 / 500), None, Some (26033 / 500)] = Some 50"
  by (simp add: series_mean_def)

text \<open>
  C2. The claim does not hold of the code. On the frame whose only column is
  \<^verbatim>\<open>Times_Hosted = [1, NaN, 3]\<close>, called with the default arguments and no rubric, the
  normalizer leaves the missing value as NaN, and row 1 gets a NaN raw score (the other
  rows get 47.934 and 52.066), a NaN \<^verbatim>\<open>Sustainability_Z\<close> and a NaN
  \<^verbatim>\<open>Sustainability_Z_Scaled\<close>.
\<close>

theorem missing_value_gives_nan_scores:
  "fst (calculate_sustainability_scores py_example [] 0 None None (2 / 5) [frame_missing_value]) = Inr 1 \<and>
   df_getitem (snd (calculate_sustainability_scores py_example [] 0 None None (2 / 5)
       [frame_missing_value]) ! 1) ''Raw_Score'' = Inr [Num (23967 / 500), Null, Num (26033 / 500)] \<and>
   bindE (df_getitem (snd (calculate_sustainability_scores py_example [] 0 None None (2 / 5)
       [frame_missing_value]) ! 1) ''Sustainability_Z'') (\<lambda>series. loc series 1) = Inr Null \<and>
   bindE (df_getitem (snd (calculate_sustainability_scores py_example [] 0 None None (2 / 5)
       [frame_missing_value]) ! 1) ''Sustainability_Z_Scaled'') (\<lambda>series. loc series 1) = Inr Null"
proof -
  have idx: "df_index frame_missing_value = [0, 1, 2]"
    by (simp add: df_index_def frame_missing_value_def upt_rec)
  have "\<exists>z0 z2. standardize (df_index frame_missing_value)
      [Some (23967 / 500), None, Some (26033 / 500)] = [z0, None, z2]"
    by (simp add: standardize_def std_missing mean_missing Let_def fdiv_def fsub_def)
  then obtain z0 z2 where zs: "standardize (df_index frame_missing_value)
      [Some (23967 / 500), None, Some (26033 / 500)] = [z0, None, z2]"
    by blast
  note ev = calc_eval [of None "2 / 5" _ py_example "[frame_missing_value]" 0 None _ "[]" _ _,
      simplified, OF nw_default env_missing raw_missing round_missing]
  show ?thesis
    unfolding ev
    by (simp add: result_columns zs loc_def rescale_def fadd_def fmul_def)
qed

subsection \<open>The standard scores\<close>

lemma result_float_columns:
  "df_float_col (with_column (with_column (with_column (with_column d
              ''Env_Conditions'' a) ''Raw_Score'' (map float_cell b)) ''Sustainability_Z'' (map float_cell c))
              ''Sustainability_Z_Scaled'' (map float_cell z)) ''Raw_Score'' = Inr b"
  "df_float_col (with_column (with_column (with_column (with_column d
              ''Env_Conditions'' a) ''Raw_Score'' (map float_cell b)) ''Sustainability_Z'' (map float_cell c))
              ''Sustainability_Z_Scaled'' (map float_cell z)) ''Sustainability_Z'' = Inr c"
  "df_float_col (with_column (with_column (with_column (with_column d
              ''Env_Conditions'' a) ''Raw_Score'' (map float_cell b)) ''Sustainability_Z'' (map float_cell c))
              ''Sustainability_Z_Scaled'' (map float_cell z)) ''Sustainability_Z_Scaled'' = Inr z"
  by (simp_all add: df_float_col_with_column mapE_cell_float)

lemma standardize_nondegenerate:
  assumes "series_mean raw = Some m" and "series_std raw = Some sd" and "sd \<noteq> 0"
  shows "standardize index raw = map (map_option (\<lambda>x. (x - m) / sd)) raw"
proof -
  have "fdiv (fsub v (Some m)) (Some sd) = map_option (\<lambda>x. (x - m) / sd) v" for v
    using assms(3) by (cases v) (simp_all add: fdiv_def fsub_def)
  then show ?thesis using assms by (simp add: standardize_def)
qed

lemma rescale_map_option: "rescale (map_option f v) = map_option (\<lambda>x. f x * 10 + 50) v"
  by (cases v) (simp_all add: rescale_def fadd_def fmul_def)





text \<open>
  C3, as amended. Let \<^verbatim>\<open>raw\<close> be the column \<^verbatim>\<open>Raw_Score\<close> of the frame the call returns. Its
  mean is taken over the values present, and its standard deviation is the sample
  standard deviation of the values present (divisor \<open>n - 1\<close>, pandas' default), undefined
  with fewer than two of them. When that standard deviation is defined and not zero,
  \<^verbatim>\<open>Sustainability_Z\<close> is \<open>(raw - mean) / std\<close> on every row and
  \<^verbatim>\<open>Sustainability_Z_Scaled\<close> is \<open>Z * 10 + 50\<close> (a missing raw score stays missing).
\<close>

theorem z_score_sample_std:
  assumes "calculate_sustainability_scores py rubric r uw ecw e s0 = (Inr df, s')"
  shows "\<exists>raw. df_float_col (s' ! df) ''Raw_Score'' = Inr raw \<and>
     series_mean raw
       = (if dropna raw = [] then None else Some (sum_list (dropna raw) / real (length (dropna raw)))) \<and>
     series_std raw
       = (if length (dropna raw) \<le> 1 then None
          else Some (sqrt (sum_list (map (\<lambda>x. (x - sum_list (dropna raw) / real (length (dropna raw)))\<^sup>2)
                 (dropna raw)) / real (length (dropna raw) - 1)))) \<and>
     (\<forall>m sd. series_mean raw = Some m \<and> series_std raw = Some sd \<and> sd \<noteq> 0 \<longrightarrow>
        df_float_col (s' ! df) ''Sustainability_Z'' = Inr (map (map_option (\<lambda>x. (x - m) / sd)) raw) \<and>
        df_float_col (s' ! df) ''Sustainability_Z_Scaled''
          = Inr (map (map_option (\<lambda>x. (x - m) / sd * 10 + 50)) raw))"
proof -
  from calc_result[OF assms] obtain env raw0 where
    df: "df = length s0" and
    s': "s' = s0 @ [with_column (with_column (with_column (with_column (s0 ! r)
                      ''Env_Conditions'' (map float_cell env))
                      ''Raw_Score'' (map float_cell (map (np_round 3) raw0)))
                      ''Sustainability_Z''
                      (map float_cell (standardize (df_index (s0 ! r)) (map (np_round 3) raw0))))
                      ''Sustainability_Z_Scaled''
                      (map float_cell (map rescale
                         (standardize (df_index (s0 ! r)) (map (np_round 3) raw0))))]"
    by blast
  let ?raw = "map (np_round 3) raw0"
  have raw: "df_float_col (s' ! df) ''Raw_Score'' = Inr ?raw"
    and z: "df_float_col (s' ! df) ''Sustainability_Z'' = Inr (standardize (df_index (s0 ! r)) ?raw)"
    and zs: "df_float_col (s' ! df) ''Sustainability_Z_Scaled''
        = Inr (map rescale (standardize (df_index (s0 ! r)) ?raw))"
    unfolding df s' nth_append_length by (rule result_float_columns)+
  have mean: "series_mean ?raw
       = (if dropna ?raw = [] then None else Some (sum_list (dropna ?raw) / real (length (dropna ?raw))))"
    by (cases "dropna ?raw") (simp_all add: series_mean_def)
  have std: "series_std ?raw
       = (if length (dropna ?raw) \<le> 1 then None
          else Some (sqrt (sum_list (map (\<lambda>x. (x - sum_list (dropna ?raw) / real (length (dropna ?raw)))\<^sup>2)
                 (dropna ?raw)) / real (length (dropna ?raw) - 1))))"
    by (simp add: series_std_def Let_def)
  have nd: "df_float_col (s' ! df) ''Sustainability_Z'' = Inr (map (map_option (\<lambda>x. (x - m) / sd)) ?raw) \<and>
        df_float_col (s' ! df) ''Sustainability_Z_Scaled''
          = Inr (map (map_option (\<lambda>x. (x - m) / sd * 10 + 50)) ?raw)"
    if "series_mean ?raw = Some m \<and> series_std ?raw = Some sd \<and> sd \<noteq> 0" for m sd
  proof -
    from that have "standardize (df_index (s0 ! r)) ?raw = map (map_option (\<lambda>x. (x - m) / sd)) ?raw"
      by (intro standardize_nondegenerate) simp_all
    then show ?thesis unfolding z zs by (simp add: rescale_map_option comp_def)
  qed
  show ?thesis
    by (rule exI[of _ ?raw]) (use raw mean std nd in blast)
qed

text \<open>
  The frame of three rows, called with the default arguments: the raw scores are
  47.934, 50 and 52.066, their mean is 50 and their sample standard deviation 2.066.
\<close>

lemma env_three:
  "mapE (\<lambda>i. compute_env_condition_metric py_example frame_three_rows i None)
     (df_index frame_three_rows) = Inr [Some 50, Some 50, Some 50]"
  by code_simp

lemma raw_three:
  "raw_scores py_example []
     [(''Times_Hosted'', 5 / 121), (''Last_Hosted_Year'', 2 / 121), (''Stadium_Type'', 8 / 121),
      (''Stadium_leed_cert'', 5 / 121), (''Waste_Management'', 3 / 121), (''Future_Developments'', 3 / 121),
      (''Avg_Feb_Temp_F'', 5 / 121), (''Alltransit_Score'', 15 / 121), (''Renewable_Energy_Pct'', 10 / 121),
      (''Waste_Diversion_Pct'', 10 / 121), (''Green_Legacy_Projects'', 10 / 121),
      (''Carbon_Offset_Programs'', 5 / 121), (''Env_Conditions'', 40 / 121)]
     (with_column frame_three_rows ''Env_Conditions'' (map float_cell [Some 50, Some 50, Some 50]))
   = Inr [Some (5800 / 121), Some 50, Some (6300 / 121)]"
  by code_simp

lemma round_three:
  "map (np_round 3) [Some (5800 / 121), Some 50, Some (6300 / 121)]
     = [Some (23967 / 500), Some 50, Some (26033 / 500)]"
  by code_simp

lemma mean_three:
  "series_mean [Some (23967 / 500), Some 50, Some (26033 / 500)] = Some 50"
  by (simp add: series_mean_def)

lemma std_three:
  "series_std [Some (23967 / 500), Some 50, Some (26033 / 500)] = Some (1033 / 500)"
proof -
  have "sqrt (1067089 / 250000) = 1033 / 500"
    by (rule real_sqrt_unique) (simp_all add: power2_eq_square)
  then show ?thesis by (simp add: series_std_def power2_eq_square)
qed

lemma population_std_three:
  "population_std [Some (23967 / 500), Some 50, Some (26033 / 500)] \<noteq> 1033 / 500"
proof
  assume eq: "population_std [Some (23967 / 500), Some 50, Some (26033 / 500)] = 1033 / 500"
  have "population_std [Some (23967 / 500), Some 50, Some (26033 / 500)] = sqrt (1067089 / 375000)"
    by (simp add: population_std_def power2_eq_square)
  with eq have "sqrt (1067089 / 375000) = 1033 / 500" by (simp only:)
  then have "(sqrt (1067089 / 375000))\<^sup>2 = (1033 / 500)\<^sup>2" by (simp only:)
  moreover have "(sqrt (1067089 / 375000))\<^sup>2 = 1067089 / 375000"
    by (rule real_sqrt_pow2) simp
  ultimately have "(1067089 / 375000 :: real) = (1033 / 500)\<^sup>2" by (simp only:)
  then show False by (simp add: power2_eq_square)
qed

lemma calc_three:
  "calculate_sustainability_scores py_example [] 0 None None (2 / 5) [frame_three_rows] =
     (Inr 1,
      [frame_three_rows,
       with_column (with_column (with_column (with_column frame_three_rows
              ''Env_Conditions'' (map float_cell [Some 50, Some 50, Some 50]))
              ''Raw_Score'' (map float_cell [Some (23967 / 500), Some 50, Some (26033 / 500)]))
              ''Sustainability_Z'' (map float_cell [Some (- 1), Some 0, Some 1]))
              ''Sustainability_Z_Scaled'' (map float_cell [Some 40, Some 50, Some 60])])"
proof -
  have st: "standardize (df_index frame_three_rows) [Some (23967 / 500), Some 50, Some (26033 / 500)]
       = [Some (- 1), Some 0, Some 1]"
    by (simp add: standardize_def std_three mean_three Let_def fdiv_def fsub_def)
  note ev = calc_eval [of None "2 / 5" _ py_example "[frame_three_rows]" 0 None _ "[]" _ _,
      simplified, OF nw_default env_three raw_three round_three]
  show ?thesis unfolding ev by (simp add: st rescale_def fadd_def fmul_def)
qed

lemma fst_three:
  "fst (calculate_sustainability_scores py_example [] 0 None None (2 / 5) [frame_three_rows]) = Inr 1"
  by (simp add: calc_three)

lemma raw_col_three:
  "df_float_col (snd (calculate_sustainability_scores py_example [] 0 None None (2 / 5)
       [frame_three_rows]) ! 1) ''Raw_Score'' = Inr [Some (23967 / 500), Some 50, Some (26033 / 500)]"
  by (simp add: calc_three df_float_col_with_column)

lemma z_col_three:
  "df_float_col (snd (calculate_sustainability_scores py_example [] 0 None None (2 / 5)
       [frame_three_rows]) ! 1) ''Sustainability_Z'' = Inr [Some (- 1), Some 0, Some 1]"
  by (simp add: calc_three df_float_col_with_column)

theorem z_score_sample_std_witness:
  "fst (calculate_sustainability_scores py_example [] 0 None None (2 / 5) [frame_three_rows]) = Inr 1 \<and>
   df_float_col (snd (calculate_sustainability_scores py_example [] 0 None None (2 / 5)
       [frame_three_rows]) ! 1) ''Raw_Score'' = Inr [Some (23967 / 500), Some 50, Some (26033 / 500)] \<and>
   series_mean [Some (23967 / 500), Some 50, Some (26033 / 500)] = Some 50 \<and>
   series_std [Some (23967 / 500), Some 50, Some (26033 / 500)] = Some (1033 / 500) \<and>
   df_float_col (snd (calculate_sustainability_scores py_example [] 0 None None (2 / 5)
       [frame_three_rows]) ! 1) ''Sustainability_Z'' = Inr [Some (- 1), Some 0, Some 1] \<and>
   df_float_col (snd (calculate_sustainability_scores py_example [] 0 None None (2 / 5)
       [frame_three_rows]) ! 1) ''Sustainability_Z_Scaled'' = Inr [Some 40, Some 50, Some 60]"
proof -
  let ?call = "calculate_sustainability_scores py_example [] 0 None None (2 / 5) [frame_three_rows]"
  let ?raw = "[Some (23967 / 500), Some 50, Some (26033 / 500 :: real)]"
  have call: "?call = (Inr 1, snd ?call)"
    using fst_three by (simp add: prod_eq_iff)
  from z_score_sample_std [OF call] obtain raw where
    raw: "df_float_col (snd ?call ! 1) ''Raw_Score'' = Inr raw" and
    nd: "\<And>m sd. series_mean raw = Some m \<and> series_std raw = Some sd \<and> sd \<noteq> 0 \<Longrightarrow>
        df_float_col (snd ?call ! 1) ''Sustainability_Z'' = Inr (map (map_option (\<lambda>x. (x - m) / sd)) raw) \<and>
        df_float_col (snd ?call ! 1) ''Sustainability_Z_Scaled''
          = Inr (map (map_option (\<lambda>x. (x - m) / sd * 10 + 50)) raw)"
    by blast
  from raw raw_col_three have eq: "raw = ?raw" by simp
  have "series_mean ?raw = Some 50 \<and> series_std ?raw = Some (1033 / 500) \<and> (1033 / 500 :: real) \<noteq> 0"
    by (simp add: mean_three std_three)
  from nd [unfolded eq, OF this]
  have z: "df_float_col (snd ?call ! 1) ''Sustainability_Z'' = Inr [Some (- 1), Some 0, Some 1]"
    and zs: "df_float_col (snd ?call ! 1) ''Sustainability_Z_Scaled'' = Inr [Some 40, Some 50, Some 60]"
    by simp_all
  show ?thesis
    by (intro conjI) (rule fst_three raw_col_three mean_three std_three z zs)+
qed

text \<open>
  The claim as stated fails there: the standard scores are -1, 0 and 1, and they are
  not the raw scores minus their mean divided by the population standard deviation
  (divisor \<open>n\<close>).
\<close>

theorem population_std_counterexample:
  "df_float_col (snd (calculate_sustainability_scores py_example [] 0 None None (2 / 5)
       [frame_three_rows]) ! 1) ''Raw_Score'' = Inr [Some (23967 / 500), Some 50, Some (26033 / 500)] \<and>
   series_mean [Some (23967 / 500), Some 50, Some (26033 / 500)] = Some 50 \<and>
   df_float_col (snd (calculate_sustainability_scores py_example [] 0 None None (2 / 5)
       [frame_three_rows]) ! 1) ''Sustainability_Z'' = Inr [Some (- 1), Some 0, Some 1] \<and>
   (23967 / 500 - 50) / population_std [Some (23967 / 500), Some 50, Some (26033 / 500)] \<noteq> - 1"
proof -
  have ne: "(23967 / 500 - 50) / population_std [Some (23967 / 500), Some 50, Some (26033 / 500)] \<noteq> - 1"
  proof
    assume "(23967 / 500 - 50) / population_std [Some (23967 / 500), Some 50, Some (26033 / 500)] = - 1"
    then have "population_std [Some (23967 / 500), Some 50, Some (26033 / 500)] = 1033 / 500"
      by (simp add: field_simps split: if_splits)
    with population_std_three show False by (simp only:)
  qed
  show ?thesis
    by (intro conjI) (rule raw_col_three mean_three z_col_three ne)+
qed


text \<open>
  The frames of one row and of two rows, called with the default arguments: every raw
  score is 50.
\<close>

lemma env_one:
  "mapE (\<lambda>i. compute_env_condition_metric py_example frame_one_row i None)
     (df_index frame_one_row) = Inr [Some 50]"
  by code_simp

lemma raw_one:
  "raw_scores py_example []
     [(''Times_Hosted'', 5 / 121), (''Last_Hosted_Year'', 2 / 121), (''Stadium_Type'', 8 / 121),
      (''Stadium_leed_cert'', 5 / 121), (''Waste_Management'', 3 / 121), (''Future_Developments'', 3 / 121),
      (''Avg_Feb_Temp_F'', 5 / 121), (''Alltransit_Score'', 15 / 121), (''Renewable_Energy_Pct'', 10 / 121),
      (''Waste_Diversion_Pct'', 10 / 121), (''Green_Legacy_Projects'', 10 / 121),
      (''Carbon_Offset_Programs'', 5 / 121), (''Env_Conditions'', 40 / 121)]
     (with_column frame_one_row ''Env_Conditions'' (map float_cell [Some 50]))
   = Inr [Some 50]"
  by code_simp

lemma round_one: "map (np_round 3) [Some 50] = [Some 50]"
  by code_simp




lemma fst_one:
  "fst (calculate_sustainability_scores py_example [] 0 None None (2 / 5) [frame_one_row]) = Inr 1"
  using calc_eval [of None "2 / 5" _ py_example "[frame_one_row]" 0 None _ "[]" _ _,
      simplified, OF nw_default env_one raw_one round_one]
  by simp





text \<open>
  C9. The call leaves every frame of the caller's store as it was, its argument
  included, also when it raises. What it returns is a new frame, not the argument,
  with the same number of rows, holding the columns \<^verbatim>\<open>Env_Conditions\<close>, \<^verbatim>\<open>Raw_Score\<close>,
  \<^verbatim>\<open>Sustainability_Z\<close> and \<^verbatim>\<open>Sustainability_Z_Scaled\<close>, and every other column as in the
  argument.
\<close>

theorem caller_frame_unchanged:
  assumes "r < length s0"
    and "calculate_sustainability_scores py rubric r uw ecw e s0 = (res, s')"
  shows "take (length s0) s' = s0 \<and> length s' = Suc (length s0) \<and>
     (\<forall>df. res = Inr df \<longrightarrow>
        df = length s0 \<and> df \<noteq> r \<and> nrows (s' ! df) = nrows (s0 ! r) \<and>
        {''Env_Conditions'', ''Raw_Score'', ''Sustainability_Z'', ''Sustainability_Z_Scaled''}
          \<subseteq> set (df_columns (s' ! df)) \<and>
        (\<forall>c. c \<notin> {''Env_Conditions'', ''Raw_Score'', ''Sustainability_Z'', ''Sustainability_Z_Scaled''} \<longrightarrow>
           map_of (columns (s' ! df)) c = map_of (columns (s0 ! r)) c))"
proof -
  from calc_store[OF assms(2)] obtain d where d: "s' = s0 @ [d]" by blast
  have frame: "df = length s0 \<and> df \<noteq> r \<and> nrows (s' ! df) = nrows (s0 ! r) \<and>
        {''Env_Conditions'', ''Raw_Score'', ''Sustainability_Z'', ''Sustainability_Z_Scaled''}
          \<subseteq> set (df_columns (s' ! df)) \<and>
        (\<forall>c. c \<notin> {''Env_Conditions'', ''Raw_Score'', ''Sustainability_Z'', ''Sustainability_Z_Scaled''} \<longrightarrow>
           map_of (columns (s' ! df)) c = map_of (columns (s0 ! r)) c)"
    if "res = Inr df" for df
  proof -
    from that assms(2) have "calculate_sustainability_scores py rubric r uw ecw e s0 = (Inr df, s')"
      by simp
    from calc_result[OF this] obtain env raw0 where
      df: "df = length s0" and
      s': "s' = s0 @ [with_column (with_column (with_column (with_column (s0 ! r)
                      ''Env_Conditions'' (map float_cell env))
                      ''Raw_Score'' (map float_cell (map (np_round 3) raw0)))
                      ''Sustainability_Z''
                      (map float_cell (standardize (df_index (s0 ! r)) (map (np_round 3) raw0))))
                      ''Sustainability_Z_Scaled''
                      (map float_cell (map rescale
                         (standardize (df_index (s0 ! r)) (map (np_round 3) raw0))))]"
      by blast
    from assms(1) df have "df \<noteq> r" by simp
    then show ?thesis
      unfolding s' df nth_append_length
      by (simp add: df_columns_with_column map_of_with_column)
  qed
  show ?thesis using frame by (simp add: d)
qed

theorem caller_frame_unchanged_witness:
  "0 < length [frame_one_row] \<and>
   fst (calculate_sustainability_scores py_example [] 0 None None (2 / 5) [frame_one_row]) = Inr 1 \<and>
   snd (calculate_sustainability_scores py_example [] 0 None None (2 / 5) [frame_one_row]) ! 0
     = frame_one_row \<and>
   length (snd (calculate_sustainability_scores py_example [] 0 None None (2 / 5) [frame_one_row])) = 2 \<and>
   set (df_columns (snd (calculate_sustainability_scores py_example [] 0 None None (2 / 5)
      [frame_one_row]) ! 1))
     = {''City'', ''Env_Conditions'', ''Raw_Score'', ''Sustainability_Z'', ''Sustainability_Z_Scaled''} \<and>
   map_of (columns (snd (calculate_sustainability_scores py_example [] 0 None None (2 / 5)
      [frame_one_row]) ! 1)) ''City'' = Some [Str ''X'']"
proof -
  let ?one = "calculate_sustainability_scores py_example [] 0 None None (2 / 5) [frame_one_row]"
  have one: "?one = (fst ?one, snd ?one)" by simp
  have pos: "0 < length [frame_one_row]" by simp
  note th = caller_frame_unchanged [OF pos one]
  from th have tk: "take (length [frame_one_row]) (snd ?one) = [frame_one_row]"
    and len: "length (snd ?one) = Suc (length [frame_one_row])"
    by blast+
  from tk have keep: "snd ?one ! 0 = frame_one_row"
    by (metis length_Cons list.size(3) nth_Cons_0 nth_take zero_less_Suc)
  from len have len2: "length (snd ?one) = 2" by simp
  from th fst_one have city: "map_of (columns (snd ?one ! 1)) ''City'' = map_of (columns ([frame_one_row] ! 0)) ''City''"
    by simp
  then have city': "map_of (columns (snd ?one ! 1)) ''City'' = Some [Str ''X'']"
    by (simp add: frame_one_row_def)
  have cols: "set (df_columns (snd ?one ! 1))
     = {''City'', ''Env_Conditions'', ''Raw_Score'', ''Sustainability_Z'', ''Sustainability_Z_Scaled''}"
  proof -
    have base: "set (df_columns frame_one_row) = {''City''}"
      by (simp add: df_columns_def frame_one_row_def)
    note ev = calc_eval [of None "2 / 5" _ py_example "[frame_one_row]" 0 None _ "[]" _ _,
      simplified, OF nw_default env_one raw_one round_one]
    show ?thesis
      unfolding ev by (simp add: df_columns_with_column base insert_commute)
  qed
  show ?thesis
    by (intro conjI) (rule pos fst_one keep len2 cols city')+
qed

end
